theory Spec2Isabelle
  imports Main "HOL-Library.Word"
begin

section \<open>Desktop.py: the change-aware capture engine\<close>

text \<open>
  A shallow embedding of \<^verbatim>\<open>brainboost_desktop_package/Desktop.py\<close>. Exceptions are
  values of the type \<open>error\<close>; a method that mutates the object or the outside world
  returns its outcome together with the state it leaves behind, so that the state after
  a raised exception can be inspected as well.
\<close>

datatype error =
    RuntimeError    \<comment> \<open>raised by \<^verbatim>\<open>Desktop.__init__\<close> when an instance already exists\<close>
  | SqliteError     \<comment> \<open>any exception of \<^verbatim>\<open>sqlite3\<close> (connect, execute, commit)\<close>
  | CvError         \<comment> \<open>\<^verbatim>\<open>cv2.error\<close>, e.g. array sizes that do not match\<close>
  | OcrError        \<comment> \<open>any exception raised by \<^verbatim>\<open>BBOcr.extract_text\<close>\<close>
  | IndexError      \<comment> \<open>indexing a sequence out of range\<close>
  | ListenerError   \<comment> \<open>the operating system refused to start an input listener\<close>
  | HandlerError    \<comment> \<open>any exception raised inside an input event handler\<close>

subsection \<open>Frames and the OpenCV primitives used by the diff step\<close>

text \<open>
  A frame is a numpy array of shape (rows, columns, 3) with \<^verbatim>\<open>uint8\<close> channels in the
  order blue, green, red; it is a list of rows of pixels. The four OpenCV functions
  called in lines 123 to 126 are library code; they are written out here after their
  documented behaviour on 8-bit images:
  \<^item> \<^verbatim>\<open>absdiff\<close>: the per-channel absolute difference, an error when the sizes differ;
  \<^item> \<^verbatim>\<open>cvtColor(COLOR_BGR2GRAY)\<close>: 0.299 R + 0.587 G + 0.114 B, computed in 15-bit
    fixed point and rounded;
  \<^item> \<^verbatim>\<open>threshold(THRESH_BINARY)\<close>: \<open>maxval\<close> where the value is greater than the
    threshold, 0 elsewhere;
  \<^item> \<^verbatim>\<open>boundingRect\<close>: the smallest upright rectangle (x, y, width, height) that holds
    every non-zero pixel, and (0, 0, 0, 0) when there is none.
\<close>

type_synonym u8 = "8 word"
type_synonym pixel = "u8 \<times> u8 \<times> u8"
type_synonym image = "pixel list list"
type_synonym gray_image = "u8 list list"

definition absdiff_u8 :: "u8 \<Rightarrow> u8 \<Rightarrow> u8" where
  "absdiff_u8 a b = (if a \<le> b then b - a else a - b)"

fun absdiff_pixel :: "pixel \<Rightarrow> pixel \<Rightarrow> pixel" where
  "absdiff_pixel (b1, g1, r1) (b2, g2, r2) =
     (absdiff_u8 b1 b2, absdiff_u8 g1 g2, absdiff_u8 r1 r2)"

definition absdiff :: "image \<Rightarrow> image \<Rightarrow> error + image" where
  "absdiff a b =
     (if map length a = map length b
      then Inr (map2 (map2 absdiff_pixel) a b)
      else Inl CvError)"

fun bgr2gray :: "pixel \<Rightarrow> u8" where
  "bgr2gray (b, g, r) =
     of_nat ((unat b * 3735 + unat g * 19235 + unat r * 9798 + 16384) div 32768)"

definition cvtColor_BGR2GRAY :: "image \<Rightarrow> gray_image" where
  "cvtColor_BGR2GRAY img = map (map bgr2gray) img"

definition threshold_binary :: "u8 \<Rightarrow> u8 \<Rightarrow> u8 \<Rightarrow> u8" where
  "threshold_binary thresh maxval v = (if thresh < v then maxval else 0)"

definition threshold :: "gray_image \<Rightarrow> u8 \<Rightarrow> u8 \<Rightarrow> gray_image" where
  "threshold src thresh maxval = map (map (threshold_binary thresh maxval)) src"

definition nonzero_points :: "gray_image \<Rightarrow> (nat \<times> nat) list" where
  "nonzero_points m =
     concat (map (\<lambda>y. map (\<lambda>x. (x, y)) (filter (\<lambda>x. m ! y ! x \<noteq> 0) [0..<length (m ! y)]))
                 [0..<length m])"

definition boundingRect :: "gray_image \<Rightarrow> nat \<times> nat \<times> nat \<times> nat" where
  "boundingRect m =
     (let pts = nonzero_points m in
      if pts = [] then (0, 0, 0, 0)
      else
        let x0 = Min (set (map fst pts)); x1 = Max (set (map fst pts));
            y0 = Min (set (map snd pts)); y1 = Max (set (map snd pts))
        in (x0, y0, x1 - x0 + 1, y1 - y0 + 1))"

text \<open>Lines 123 to 126 of \<^verbatim>\<open>_save_screenshot_diff\<close>: the region (x, y, w, h).\<close>

definition diff_region :: "image \<Rightarrow> image \<Rightarrow> error + nat \<times> nat \<times> nat \<times> nat" where
  "diff_region base_img new_img =
     (case absdiff base_img new_img of
        Inl e \<Rightarrow> Inl e
      | Inr diff \<Rightarrow>
          let gray_diff = cvtColor_BGR2GRAY diff;
              diff_thresh = threshold gray_diff 30 255
          in Inr (boundingRect diff_thresh))"

text \<open>The slice \<^verbatim>\<open>new_img[y:y + h, x:x + w]\<close> of line 145.\<close>

definition crop :: "image \<Rightarrow> nat \<Rightarrow> nat \<Rightarrow> nat \<Rightarrow> nat \<Rightarrow> image" where
  "crop img x y w h = map (\<lambda>row. take w (drop x row)) (take h (drop y img))"

subsection \<open>Input events and the two listener callbacks\<close>

text \<open>
  \<^verbatim>\<open>input_data\<close> is the dictionary that a callback builds: a keyboard event carries
  \<^verbatim>\<open>str(key)\<close>, a mouse event the action (\<^verbatim>\<open>click\<close> or \<^verbatim>\<open>release\<close>) and the pointer
  position; both carry the time at which they were observed.
\<close>

datatype input_data =
    Keyboard string string
  | Mouse string int int string

datatype log_entry =
    CapturedKeyPress input_data       \<comment> \<open>\<^verbatim>\<open>Captured key press: ...\<close>\<close>
  | CapturedMouseEvent input_data     \<comment> \<open>\<^verbatim>\<open>Captured mouse event: ...\<close>\<close>
  | KeyPressHandlerError error        \<comment> \<open>\<^verbatim>\<open>Error in key press handler: ...\<close>\<close>
  | StartingListenersError error      \<comment> \<open>\<^verbatim>\<open>Error starting listeners: ...\<close>\<close>

text \<open>The attributes of a \<^verbatim>\<open>Desktop\<close> object that the capture path reads or writes.\<close>

record desktop =
  base_image :: "image option"
  user_input_queue :: "input_data list"
  monitoring_user_input :: bool

record rect =
  rect_x :: int
  rect_y :: int
  rect_width :: int
  rect_height :: int

record text_annotation =
  ann_text :: string
  ann_rect :: rect

text \<open>
  One row of the table \<^verbatim>\<open>snapshots\<close>, with the columns of the INSERT statement of line
  152. The store assigns the id; the rows are kept in insertion order. The JSON texts
  and the PNG bytes are kept as the values they encode.
\<close>

record snapshot =
  snap_timestamp :: string
  snap_type :: string
  snap_data :: image
  snap_position :: "nat \<times> nat \<times> nat \<times> nat"
  snap_text :: "text_annotation list"
  snap_user_input :: "input_data list"

text \<open>What the object's methods change outside the object.\<close>

record outside =
  snapshots :: "snapshot list"          \<comment> \<open>the committed rows of the table\<close>
  ocr_calls :: "image list"             \<comment> \<open>the arguments of the calls of \<^verbatim>\<open>extract_text\<close>\<close>
  files :: "(string \<times> image) list"      \<comment> \<open>the images written by \<^verbatim>\<open>cv2.imwrite\<close>\<close>
  bblog :: "log_entry list"             \<comment> \<open>the lines given to \<^verbatim>\<open>BBLogger.log\<close>\<close>

text \<open>
  An event as the listener delivers it to its callback. The first field injects a
  fault: \<open>Some e\<close> means that the body of the callback raises \<open>e\<close> before the event
  reaches the queue.
\<close>

datatype raw_event =
    KeyPress "error option" string string
  | MouseClick "error option" int int string bool string

text \<open>\<^verbatim>\<open>on_key_press\<close>, lines 82 to 92: the body is inside \<^verbatim>\<open>try ... except Exception\<close>.\<close>

definition on_key_press ::
  "error option \<Rightarrow> string \<Rightarrow> string \<Rightarrow> desktop \<Rightarrow> outside \<Rightarrow> (error + unit) \<times> desktop \<times> outside"
where
  "on_key_press fault key now d out =
     (case fault of
        None \<Rightarrow>
          let input_data = Keyboard key now
          in (Inr (),
              d\<lparr>user_input_queue := user_input_queue d @ [input_data]\<rparr>,
              out\<lparr>bblog := bblog out @ [CapturedKeyPress input_data]\<rparr>)
      | Some e \<Rightarrow>
          (Inr (), d, out\<lparr>bblog := bblog out @ [KeyPressHandlerError e]\<rparr>))"

text \<open>\<^verbatim>\<open>on_mouse_click\<close>, lines 94 to 102: the body is not inside any \<^verbatim>\<open>try\<close>.\<close>

definition on_mouse_click ::
  "error option \<Rightarrow> int \<Rightarrow> int \<Rightarrow> string \<Rightarrow> bool \<Rightarrow> string \<Rightarrow> desktop \<Rightarrow> outside
     \<Rightarrow> (error + unit) \<times> desktop \<times> outside"
where
  "on_mouse_click fault px py button pressed now d out =
     (case fault of
        None \<Rightarrow>
          let input_data = Mouse (if pressed then ''click'' else ''release'') px py now
          in (Inr (),
              d\<lparr>user_input_queue := user_input_queue d @ [input_data]\<rparr>,
              out\<lparr>bblog := bblog out @ [CapturedMouseEvent input_data]\<rparr>)
      | Some e \<Rightarrow> (Inl e, d, out))"

text \<open>
  The two \<^verbatim>\<open>pynput\<close> listeners of lines 105 to 108, over the stream of the events
  that the operating system delivers. A listener calls its callback for each of its
  events. An exception that leaves a callback stops that listener, which then delivers
  nothing more, and is raised again by the \<^verbatim>\<open>join\<close> of that listener. The monitoring
  thread waits in \<^verbatim>\<open>key_listener.join()\<close>: an exception of the keyboard callback ends the
  \<^verbatim>\<open>with\<close> block, while the mouse listener can stop without the thread noticing. The
  flag tells whether the mouse listener is still running.
\<close>

fun listeners_join ::
  "raw_event list \<Rightarrow> bool \<Rightarrow> desktop \<Rightarrow> outside \<Rightarrow> (error + unit) \<times> bool \<times> desktop \<times> outside"
where
  "listeners_join [] mouse_running d out = (Inr (), mouse_running, d, out)"
| "listeners_join (KeyPress fault key now # evs) mouse_running d out =
     (case on_key_press fault key now d out of
        (Inl e, d', out') \<Rightarrow> (Inl e, False, d', out')
      | (Inr _, d', out') \<Rightarrow> listeners_join evs mouse_running d' out')"
| "listeners_join (MouseClick fault px py button pressed now # evs) mouse_running d out =
     (if mouse_running then
        (case on_mouse_click fault px py button pressed now d out of
           (Inl e, d', out') \<Rightarrow> listeners_join evs False d' out'
         | (Inr _, d', out') \<Rightarrow> listeners_join evs True d' out')
      else listeners_join evs False d out)"

text \<open>
  \<^verbatim>\<open>_monitor_user_input\<close>, lines 104 to 110. \<open>start_fault\<close> is the exception, if any,
  with which the operating system refuses to start a listener.
\<close>

definition monitor_user_input ::
  "error option \<Rightarrow> raw_event list \<Rightarrow> desktop \<Rightarrow> outside \<Rightarrow> desktop \<times> outside"
where
  "monitor_user_input start_fault evs d out =
     (case start_fault of
        Some e \<Rightarrow> (d, out\<lparr>bblog := bblog out @ [StartingListenersError e]\<rparr>)
      | None \<Rightarrow>
          (case listeners_join evs True d out of
             (Inl e, _, d', out') \<Rightarrow> (d', out'\<lparr>bblog := bblog out' @ [StartingListenersError e]\<rparr>)
           | (Inr _, _, d', out') \<Rightarrow> (d', out')))"

text \<open>The event that a callback records when nothing fails.\<close>

fun recorded :: "raw_event \<Rightarrow> input_data" where
  "recorded (KeyPress fault key now) = Keyboard key now"
| "recorded (MouseClick fault px py button pressed now) =
     Mouse (if pressed then ''click'' else ''release'') px py now"

fun faultless :: "raw_event \<Rightarrow> bool" where
  "faultless (KeyPress fault key now) = (fault = None)"
| "faultless (MouseClick fault px py button pressed now) = (fault = None)"

subsection \<open>Draining the queue\<close>

text \<open>
  \<^verbatim>\<open>_save_user_input\<close>, lines 112 to 116: the loop takes the head of the queue while the
  queue is not empty. The first argument of \<open>drain_loop\<close> is the queue, the second the
  list \<^verbatim>\<open>user_inputs\<close> built so far.
\<close>

fun drain_loop :: "input_data list \<Rightarrow> input_data list \<Rightarrow> input_data list \<times> input_data list" where
  "drain_loop [] user_inputs = (user_inputs, [])"
| "drain_loop (e # q) user_inputs = drain_loop q (user_inputs @ [e])"

definition save_user_input :: "desktop \<Rightarrow> input_data list \<times> desktop" where
  "save_user_input d =
     (case drain_loop (user_input_queue d) [] of
        (user_inputs, q) \<Rightarrow> (user_inputs, d\<lparr>user_input_queue := q\<rparr>))"

subsection \<open>Text annotations\<close>

text \<open>
  One result of \<^verbatim>\<open>BBOcr.extract_text\<close> is a text and a sequence \<^verbatim>\<open>rect\<close> of corner
  coordinates. Lines 129 to 139 read \<^verbatim>\<open>rect[0]\<close> to \<^verbatim>\<open>rect[3]\<close>; a shorter sequence
  raises \<^verbatim>\<open>IndexError\<close>, and the list comprehension stops at the first exception.
\<close>

type_synonym ocr_result = "string \<times> int list"

fun ocr_text_entry :: "ocr_result \<Rightarrow> error + text_annotation" where
  "ocr_text_entry (t, r) =
     (if length r < 4 then Inl IndexError
      else Inr \<lparr>ann_text = t,
                ann_rect = \<lparr>rect_x = r ! 0, rect_y = r ! 1,
                            rect_width = r ! 2 - r ! 0, rect_height = r ! 3 - r ! 1\<rparr>\<rparr>)"

fun ocr_text_json :: "ocr_result list \<Rightarrow> error + text_annotation list" where
  "ocr_text_json [] = Inr []"
| "ocr_text_json (result # results) =
     (case ocr_text_entry result of
        Inl e \<Rightarrow> Inl e
      | Inr a \<Rightarrow>
          (case ocr_text_json results of
             Inl e \<Rightarrow> Inl e
           | Inr as \<Rightarrow> Inr (a # as)))"

subsection \<open>The capture cycle\<close>

text \<open>
  The collaborators as one call of a method meets them: the OCR service (a result or
  an exception for each frame), whether the operations of \<^verbatim>\<open>sqlite3\<close> succeed, and the
  reading of the clock.
\<close>

record world =
  ocr_extract_text :: "image \<Rightarrow> error + ocr_result list"
  sqlite_ok :: bool
  clock :: string

text \<open>The options of \<^verbatim>\<open>BBConfig\<close> that the class consults.\<close>

record config =
  snapshots_database_enabled :: bool
  snapshots_database_path :: string
  write_screenshots_to_files :: bool
  snapshot_images :: string
  opt_monitor_user_input :: bool   \<comment> \<open>the option \<^verbatim>\<open>monitor_user_input\<close>\<close>

text \<open>
  \<^verbatim>\<open>_save_screenshot_diff\<close>, lines 118 to 165. No statement of the method is inside a
  \<^verbatim>\<open>try\<close>, and \<^verbatim>\<open>self.lock\<close> is not acquired: an exception of a collaborator leaves
  the method at the statement that raised it, with the effects of the statements before.
\<close>

definition save_screenshot_diff ::
  "world \<Rightarrow> image \<Rightarrow> desktop \<Rightarrow> outside \<Rightarrow> (error + unit) \<times> desktop \<times> outside"
where
  "save_screenshot_diff w new_img d out =
     (case base_image d of
        None \<Rightarrow> (Inr (), d\<lparr>base_image := Some new_img\<rparr>, out)
      | Some base \<Rightarrow>
          (case diff_region base new_img of
             Inl e \<Rightarrow> (Inl e, d, out)
           | Inr (x, y, wd, h) \<Rightarrow>
               let out1 = out\<lparr>ocr_calls := ocr_calls out @ [new_img]\<rparr> in
               (case ocr_extract_text w new_img of
                  Inl e \<Rightarrow> (Inl e, d, out1)
                | Inr ocr_results \<Rightarrow>
                    (case ocr_text_json ocr_results of
                       Inl e \<Rightarrow> (Inl e, d, out1)
                     | Inr ocr_json \<Rightarrow>
                         (case save_user_input d of
                            (user_inputs, d1) \<Rightarrow>
                              if 0 < wd \<and> 0 < h then
                                let cropped_diff = crop new_img x y wd h in
                                if sqlite_ok w then
                                  (Inr (),
                                   d1\<lparr>base_image := Some new_img\<rparr>,
                                   out1\<lparr>snapshots := snapshots out1 @
                                      [\<lparr>snap_timestamp = clock w,
                                        snap_type = ''desktop_screenshot'',
                                        snap_data = cropped_diff,
                                        snap_position = (x, y, wd, h),
                                        snap_text = ocr_json,
                                        snap_user_input = user_inputs\<rparr>]\<rparr>)
                                else (Inl SqliteError, d1, out1)
                              else (Inr (), d1\<lparr>base_image := Some new_img\<rparr>, out1))))))"

text \<open>
  \<^verbatim>\<open>take_fullscreen_screenshot\<close> from line 412 on, for the stitched frame
  \<^verbatim>\<open>combined_screenshot\<close>.
\<close>

definition capture_cycle ::
  "config \<Rightarrow> world \<Rightarrow> image \<Rightarrow> desktop \<Rightarrow> outside \<Rightarrow> (error + image) \<times> desktop \<times> outside"
where
  "capture_cycle cfg w combined_screenshot d out =
     (let d1 = (if base_image d = None then d\<lparr>base_image := Some combined_screenshot\<rparr> else d);
          out1 = (if write_screenshots_to_files cfg
                  then out\<lparr>files := files out @
                         [(snapshot_images cfg @ ''/snapshot_'' @ clock w @ ''.png'',
                           combined_screenshot)]\<rparr>
                  else out)
      in if snapshots_database_enabled cfg then
           (case save_screenshot_diff w combined_screenshot d1 out1 of
              (Inl e, d2, out2) \<Rightarrow> (Inl e, d2, out2)
            | (Inr _, d2, out2) \<Rightarrow> (Inr combined_screenshot, d2, out2))
         else (Inr combined_screenshot, d1, out1))"

text \<open>
  Lines 405 to 410: one grab for each monitor, stacked vertically when there are
  several. A grab of \<^verbatim>\<open>mss\<close> has four channels (blue, green, red, alpha), so the test
  of line 409 holds and the alpha channel is dropped. \<^verbatim>\<open>cv2.vconcat\<close> wants the same
  number of columns in every source.
\<close>

type_synonym bgra_image = "(u8 \<times> u8 \<times> u8 \<times> u8) list list"

definition cols :: "'a list list \<Rightarrow> nat" where
  "cols img = (case img of [] \<Rightarrow> 0 | row # _ \<Rightarrow> length row)"

definition vconcat :: "'a list list list \<Rightarrow> error + 'a list list" where
  "vconcat srcs =
     (if list_all (\<lambda>s. cols s = cols (hd srcs)) srcs then Inr (concat srcs) else Inl CvError)"

definition cvtColor_BGRA2BGR :: "bgra_image \<Rightarrow> image" where
  "cvtColor_BGRA2BGR img = map (map (\<lambda>(b, g, r, a). (b, g, r))) img"

definition take_fullscreen_screenshot ::
  "config \<Rightarrow> world \<Rightarrow> bgra_image list \<Rightarrow> desktop \<Rightarrow> outside \<Rightarrow> (error + image) \<times> desktop \<times> outside"
where
  "take_fullscreen_screenshot cfg w screenshots d out =
     (case screenshots of
        [] \<Rightarrow> (Inl IndexError, d, out)
      | [s] \<Rightarrow> capture_cycle cfg w (cvtColor_BGRA2BGR s) d out
      | _ \<Rightarrow>
          (case vconcat screenshots of
             Inl e \<Rightarrow> (Inl e, d, out)
           | Inr combined \<Rightarrow> capture_cycle cfg w (cvtColor_BGRA2BGR combined) d out))"

text \<open>
  The region that a capture cycle computes: the frame is compared with the baseline,
  which is the frame itself when no baseline was stored before (lines 412 and 413).
\<close>

definition cycle_region :: "desktop \<Rightarrow> image \<Rightarrow> error + nat \<times> nat \<times> nat \<times> nat" where
  "cycle_region d img =
     diff_region (case base_image d of None \<Rightarrow> img | Some base \<Rightarrow> base) img"

fun nondegenerate :: "error + nat \<times> nat \<times> nat \<times> nat \<Rightarrow> bool" where
  "nondegenerate (Inr (x, y, wd, h)) = (0 < wd \<and> 0 < h)"
| "nondegenerate (Inl e) = False"

subsection \<open>The singleton and its construction\<close>

text \<open>
  The state of the process that construction touches: the options of \<^verbatim>\<open>BBConfig\<close>
  (\<^verbatim>\<open>override\<close> changes them), the class attribute \<^verbatim>\<open>Desktop._instance\<close> (a reference,
  that is an index into the objects constructed so far), the arguments of the
  successful calls of \<^verbatim>\<open>sqlite3.connect\<close>, the databases in which the table was created
  and the number of collector threads started.
\<close>

record runtime =
  bbconfig :: config
  desktop_instance :: "nat option"
  objects :: "desktop list"
  connections :: "string list"
  schemas :: "string list"
  collector_threads :: nat

text \<open>\<^verbatim>\<open>init_database\<close>, lines 61 to 76.\<close>

definition init_database :: "bool \<Rightarrow> runtime \<Rightarrow> (error + unit) \<times> runtime" where
  "init_database ok rt =
     (if snapshots_database_enabled (bbconfig rt) then
        if ok then
          (Inr (),
           rt\<lparr>connections := connections rt @ [snapshots_database_path (bbconfig rt)],
              schemas := schemas rt @ [snapshots_database_path (bbconfig rt)]\<rparr>)
        else (Inl SqliteError, rt)
      else (Inr (), rt))"

text \<open>\<^verbatim>\<open>Desktop.__init__\<close>, lines 43 to 59; the result is the initialised object.\<close>

definition Desktop_init :: "bool \<Rightarrow> runtime \<Rightarrow> (error + desktop) \<times> runtime" where
  "Desktop_init ok rt =
     (if desktop_instance rt \<noteq> None then (Inl RuntimeError, rt)
      else
        (case init_database ok rt of
           (Inl e, rt1) \<Rightarrow> (Inl e, rt1)
         | (Inr _, rt1) \<Rightarrow>
             if \<not> ok then (Inl SqliteError, rt1)
             else
               let rt2 = rt1\<lparr>connections :=
                              connections rt1 @ [snapshots_database_path (bbconfig rt1)]\<rparr>;
                   self = \<lparr>base_image = None, user_input_queue = [],
                           monitoring_user_input = False\<rparr>;
                   rt3 = rt2\<lparr>bbconfig := (bbconfig rt2)\<lparr>opt_monitor_user_input := True\<rparr>\<rparr>
               in if opt_monitor_user_input (bbconfig rt3) then
                    (Inr (self\<lparr>monitoring_user_input := True\<rparr>),
                     rt3\<lparr>collector_threads := Suc (collector_threads rt3)\<rparr>)
                  else (Inr self, rt3)))"

text \<open>The call \<^verbatim>\<open>Desktop()\<close>: a new object, initialised by \<^verbatim>\<open>__init__\<close>.\<close>

definition Desktop_new :: "bool \<Rightarrow> runtime \<Rightarrow> (error + nat) \<times> runtime" where
  "Desktop_new ok rt =
     (case Desktop_init ok rt of
        (Inl e, rt') \<Rightarrow> (Inl e, rt')
      | (Inr self, rt') \<Rightarrow> (Inr (length (objects rt')), rt'\<lparr>objects := objects rt' @ [self]\<rparr>))"

text \<open>\<^verbatim>\<open>get_desktop_singleton\<close>, lines 167 to 172.\<close>

definition get_desktop_singleton :: "bool \<Rightarrow> runtime \<Rightarrow> (error + nat) \<times> runtime" where
  "get_desktop_singleton ok rt =
     (case desktop_instance rt of
        None \<Rightarrow>
          (case Desktop_new ok rt of
             (Inl e, rt') \<Rightarrow> (Inl e, rt')
           | (Inr r, rt') \<Rightarrow> (Inr r, rt'\<lparr>desktop_instance := Some r\<rparr>))
      | Some r \<Rightarrow> (Inr r, rt))"

subsection \<open>Notions used to state the properties\<close>

text \<open>The change mask of line 125, for two frames of the same shape.\<close>

definition change_mask :: "image \<Rightarrow> image \<Rightarrow> gray_image" where
  "change_mask a b = threshold (cvtColor_BGR2GRAY (map2 (map2 absdiff_pixel) a b)) 30 255"

text \<open>
  A rectangle (x, y, width, height) and a frame: the pixel in column \<open>x\<close> of row \<open>y\<close>
  lies inside the rectangle; the rectangle is not empty and lies within the frame; two
  frames differ only inside the rectangle, and there by more than the threshold.
\<close>

fun inside :: "nat \<times> nat \<times> nat \<times> nat \<Rightarrow> nat \<Rightarrow> nat \<Rightarrow> bool" where
  "inside (rx, ry, rw, rh) x y = (rx \<le> x \<and> x < rx + rw \<and> ry \<le> y \<and> y < ry + rh)"

fun within_frame :: "nat \<times> nat \<times> nat \<times> nat \<Rightarrow> image \<Rightarrow> bool" where
  "within_frame (rx, ry, rw, rh) img =
     (0 < rw \<and> 0 < rh \<and> ry + rh \<le> length img \<and>
      (\<forall>y \<in> set [ry..<ry + rh]. rx + rw \<le> length (img ! y)))"

definition differs_only_inside :: "image \<Rightarrow> image \<Rightarrow> nat \<times> nat \<times> nat \<times> nat \<Rightarrow> bool" where
  "differs_only_inside base new R =
     (\<forall>y \<in> set [0..<length new]. \<forall>x \<in> set [0..<length (new ! y)].
        if inside R x y then 30 < bgr2gray (absdiff_pixel (base ! y ! x) (new ! y ! x))
        else base ! y ! x = new ! y ! x)"

subsection \<open>Concrete inputs\<close>

text \<open>A grey 3 by 3 frame, and the same frame with a patch in its lower right corner.\<close>

definition ex_base :: image where
  "ex_base = [[(10, 10, 10), (10, 10, 10), (10, 10, 10)],
              [(10, 10, 10), (10, 10, 10), (10, 10, 10)],
              [(10, 10, 10), (10, 10, 10), (10, 10, 10)]]"

definition ex_new :: image where
  "ex_new = [[(10, 10, 10), (10, 10, 10), (10, 10, 10)],
             [(10, 10, 10), (10, 200, 10), (10, 10, 200)],
             [(10, 10, 10), (200, 200, 10), (90, 90, 90)]]"

text \<open>
  A configuration with persistence and input monitoring enabled, and one with both
  disabled; a process in which no \<^verbatim>\<open>Desktop\<close> was constructed yet.
\<close>

definition ex_config :: config where
  "ex_config = \<lparr>snapshots_database_enabled = True, snapshots_database_path = ''snapshots.db'',
                 write_screenshots_to_files = False, snapshot_images = ''snapshots'',
                 opt_monitor_user_input = True\<rparr>"

definition ex_config_off :: config where
  "ex_config_off =
     ex_config\<lparr>snapshots_database_enabled := False, opt_monitor_user_input := False\<rparr>"

definition ex_runtime :: "config \<Rightarrow> runtime" where
  "ex_runtime cfg = \<lparr>bbconfig = cfg, desktop_instance = None, objects = [], connections = [],
                      schemas = [], collector_threads = 0\<rparr>"

text \<open>
  Collaborators that work (the OCR service finds one word in every frame), an object
  whose baseline is \<open>ex_base\<close> and whose queue holds two events, an empty store, and
  the two events as the listeners deliver them.
\<close>

definition ex_world :: world where
  "ex_world = \<lparr>ocr_extract_text = (\<lambda>img. Inr [(''File'', [1, 2, 4, 6])]),
                sqlite_ok = True, clock = ''2024-05-01T10:00:00''\<rparr>"

definition ex_desktop :: desktop where
  "ex_desktop = \<lparr>base_image = Some ex_base,
                  user_input_queue = [Keyboard ''a'' ''09:59:58'', Mouse ''click'' 3 4 ''09:59:59''],
                  monitoring_user_input = True\<rparr>"

definition ex_outside :: outside where
  "ex_outside = \<lparr>snapshots = [], ocr_calls = [], files = [], bblog = []\<rparr>"

definition ex_events :: "raw_event list" where
  "ex_events = [KeyPress None ''a'' ''09:59:58'', MouseClick None 3 4 ''left'' True ''09:59:59'']"

section \<open>Properties\<close>

subsection \<open>The diff step\<close>

lemma absdiff_u8_same: "absdiff_u8 a a = 0"
  by (simp add: absdiff_u8_def)

lemma bgr2gray_absdiff_same: "bgr2gray (absdiff_pixel p p) = 0"
  by (cases p) (simp add: absdiff_u8_same)

lemma set_nonzero_points:
  "set (nonzero_points m) = {(x, y). y < length m \<and> x < length (m ! y) \<and> m ! y ! x \<noteq> 0}"
  by (auto simp: nonzero_points_def)

lemma length_change_mask:
  "map length a = map length b \<Longrightarrow> length (change_mask a b) = length b"
  by (drule arg_cong [where f = length])
     (simp add: change_mask_def threshold_def cvtColor_BGR2GRAY_def)

lemma row_lengths:
  assumes "map length a = map length b" "y < length b"
  shows "length (a ! y) = length (b ! y)" "y < length a"
proof -
  from assms(1) have l: "length a = length b" by (rule map_eq_imp_length_eq)
  with assms(2) show "y < length a" by simp
  from l assms(2) have "length (a ! y) = map length a ! y" by simp
  also have "\<dots> = map length b ! y" using assms(1) by simp
  also have "\<dots> = length (b ! y)" using assms(2) by simp
  finally show "length (a ! y) = length (b ! y)" .
qed

lemma change_mask_row:
  assumes "map length a = map length b" "y < length b"
  shows "length (change_mask a b ! y) = length (b ! y)"
  using row_lengths [OF assms] assms(2)
  by (simp add: change_mask_def threshold_def cvtColor_BGR2GRAY_def)

lemma change_mask_nth:
  assumes "map length a = map length b" "y < length b" "x < length (b ! y)"
  shows "change_mask a b ! y ! x =
         threshold_binary 30 255 (bgr2gray (absdiff_pixel (a ! y ! x) (b ! y ! x)))"
  using row_lengths [OF assms(1,2)] assms(2,3)
  by (simp add: change_mask_def threshold_def cvtColor_BGR2GRAY_def)

lemma diff_region_mask:
  "map length a = map length b \<Longrightarrow> diff_region a b = Inr (boundingRect (change_mask a b))"
  by (simp add: diff_region_def absdiff_def change_mask_def)

lemma diff_region_same: "diff_region f f = Inr (0, 0, 0, 0)"
proof -
  have "set (nonzero_points (change_mask f f)) = {}"
    by (auto simp: set_nonzero_points length_change_mask change_mask_row change_mask_nth
        bgr2gray_absdiff_same threshold_binary_def)
  then have "nonzero_points (change_mask f f) = []" by simp
  then show ?thesis by (simp add: diff_region_mask boundingRect_def)
qed

lemma Min_interval: "0 < n \<Longrightarrow> Min {a..<a + n} = (a::nat)"
  by (rule Min_eqI) simp_all

lemma Max_interval: "0 < n \<Longrightarrow> Max {a..<a + n} = (a::nat) + n - 1"
  by (rule Max_eqI) auto

lemma diff_region_rect:
  assumes shape: "map length base = map length new"
    and frame: "within_frame (rx, ry, rw, rh) new"
    and diff: "differs_only_inside base new (rx, ry, rw, rh)"
  shows "diff_region base new = Inr (rx, ry, rw, rh)"
proof -
  let ?m = "change_mask base new"
  let ?R = "{(x, y). rx \<le> x \<and> x < rx + rw \<and> ry \<le> y \<and> y < ry + rh}"
  have pts: "set (nonzero_points ?m) = ?R"
  proof -
    have "(y < length new \<and> x < length (new ! y) \<and> ?m ! y ! x \<noteq> 0) =
          (rx \<le> x \<and> x < rx + rw \<and> ry \<le> y \<and> y < ry + rh)" for x y
    proof (cases "y < length new \<and> x < length (new ! y)")
      case True
      then have "?m ! y ! x =
          threshold_binary 30 255 (bgr2gray (absdiff_pixel (base ! y ! x) (new ! y ! x)))"
        using change_mask_nth [OF shape] by simp
      moreover from diff True have
        "if inside (rx, ry, rw, rh) x y
         then 30 < bgr2gray (absdiff_pixel (base ! y ! x) (new ! y ! x))
         else base ! y ! x = new ! y ! x"
        by (simp add: differs_only_inside_def)
      ultimately show ?thesis using True
        by (auto simp: threshold_binary_def bgr2gray_absdiff_same split: if_splits)
    next
      case False
      have "\<not> (rx \<le> x \<and> x < rx + rw \<and> ry \<le> y \<and> y < ry + rh)"
      proof
        assume r: "rx \<le> x \<and> x < rx + rw \<and> ry \<le> y \<and> y < ry + rh"
        with frame have y: "y < length new" by simp
        with frame r have "rx + rw \<le> length (new ! y)" by simp
        with r y False show False by simp
      qed
      with False show ?thesis by blast
    qed
    then show ?thesis
      by (simp add: set_nonzero_points length_change_mask [OF shape]
          change_mask_row [OF shape] cong: conj_cong)
  qed
  from frame have pos: "0 < rw" "0 < rh" by simp_all
  have "fst ` ?R = {rx..<rx + rw}"
  proof (intro set_eqI iffI)
    fix x assume "x \<in> fst ` ?R"
    then show "x \<in> {rx..<rx + rw}" by auto
  next
    fix x assume "x \<in> {rx..<rx + rw}"
    with pos have "(x, ry) \<in> ?R" by simp
    then show "x \<in> fst ` ?R" by (rule rev_image_eqI) simp
  qed
  then have xs: "fst ` set (nonzero_points ?m) = {rx..<rx + rw}"
    by (simp add: pts)
  have "snd ` ?R = {ry..<ry + rh}"
  proof (intro set_eqI iffI)
    fix y assume "y \<in> snd ` ?R"
    then show "y \<in> {ry..<ry + rh}" by auto
  next
    fix y assume "y \<in> {ry..<ry + rh}"
    with pos have "(rx, y) \<in> ?R" by simp
    then show "y \<in> snd ` ?R" by (rule rev_image_eqI) simp
  qed
  then have ys: "snd ` set (nonzero_points ?m) = {ry..<ry + rh}"
    by (simp add: pts)
  from pos have "(rx, ry) \<in> set (nonzero_points ?m)" by (simp add: pts)
  then have ne: "nonzero_points ?m \<noteq> []" by auto
  from pos have mm: "Min {rx..<rx + rw} = rx" "Max {rx..<rx + rw} = rx + rw - 1"
    "Min {ry..<ry + rh} = ry" "Max {ry..<ry + rh} = ry + rh - 1"
    by (simp_all add: Min_interval Max_interval)
  have "boundingRect ?m = (rx, ry, rw, rh)"
    using pos ne by (simp add: boundingRect_def xs ys mm Let_def)
  then show ?thesis by (simp add: diff_region_mask [OF shape])
qed



subsection \<open>Helper facts for the capture cycle\<close>

lemma drain_loop_eq: "drain_loop q acc = (acc @ q, [])"
  by (induction q arbitrary: acc) simp_all

lemma save_user_input_eq:
  "save_user_input d = (user_input_queue d, d\<lparr>user_input_queue := []\<rparr>)"
  by (simp add: save_user_input_def drain_loop_eq)

lemma listeners_join_faultless:
  "list_all faultless evs \<Longrightarrow>
   fst (listeners_join evs True d out) = Inr () \<and>
   user_input_queue (fst (snd (snd (listeners_join evs True d out)))) =
     user_input_queue d @ map recorded evs"
proof (induction evs arbitrary: d out)
  case Nil
  then show ?case by simp
next
  case (Cons ev evs)
  then show ?case
    by (cases ev) (simp_all add: on_key_press_def on_mouse_click_def Let_def)
qed

lemma ocr_text_json_map:
  "ocr_text_json rs = Inr anns \<Longrightarrow>
   length anns = length rs \<and>
   (\<forall>i < length rs. \<exists>l t r b rest. snd (rs ! i) = l # t # r # b # rest \<and>
      anns ! i = \<lparr>ann_text = fst (rs ! i),
                   ann_rect = \<lparr>rect_x = l, rect_y = t, rect_width = r - l, rect_height = b - t\<rparr>\<rparr>)"
proof (induction rs arbitrary: anns)
  case Nil
  then show ?case by simp
next
  case (Cons a rs)
  obtain tx rc where a: "a = (tx, rc)" by (cases a)
  from Cons.prems a obtain an ans where
    e: "ocr_text_entry (tx, rc) = Inr an" and j: "ocr_text_json rs = Inr ans"
    and anns: "anns = an # ans"
    by (auto split: sum.splits)
  from e have len: "4 \<le> length rc" by (simp split: if_splits)
  then obtain l t r b rest where rc: "rc = l # t # r # b # rest"
    by (cases rc; cases "tl rc"; cases "tl (tl rc)"; cases "tl (tl (tl rc))") auto
  with e have an: "an = \<lparr>ann_text = tx,
      ann_rect = \<lparr>rect_x = l, rect_y = t, rect_width = r - l, rect_height = b - t\<rparr>\<rparr>"
    by (simp add: numeral_3_eq_3 numeral_2_eq_2)
  from Cons.IH [OF j] show ?case
    by (auto simp: a anns an rc nth_Cons split: nat.splits)
qed

lemma ex_region: "diff_region ex_base ex_new = Inr (1, 1, 2, 2)"
proof -
  have "map length ex_base = map length ex_new"
    by (simp add: ex_base_def ex_new_def)
  moreover have "within_frame (1, 1, 2, 2) ex_new"
    by (simp add: ex_new_def)
  moreover have "differs_only_inside ex_base ex_new (1, 1, 2, 2)"
    by (simp add: differs_only_inside_def ex_base_def ex_new_def absdiff_u8_def del: set_upt)
  ultimately show ?thesis by (rule diff_region_rect)
qed

lemma ex_frames_differ: "ex_base \<noteq> ex_new"
  by (simp add: ex_base_def ex_new_def)

lemma ex_cycle_region: "cycle_region ex_desktop ex_new = Inr (1, 1, 2, 2)"
  by (simp add: cycle_region_def ex_desktop_def ex_region)

lemma ex_ocr: "ocr_extract_text ex_world img = Inr [(''File'', [1, 2, 4, 6])]"
  by (simp add: ex_world_def)

lemma ex_ocr_json:
  "ocr_text_json [(''File'', [1, 2, 4, 6])] =
     Inr [\<lparr>ann_text = ''File'',
           ann_rect = \<lparr>rect_x = 1, rect_y = 2, rect_width = 3, rect_height = 4\<rparr>\<rparr>]"
  by simp

lemma ex_listeners:
  "listeners_join ex_events True (ex_desktop\<lparr>user_input_queue := []\<rparr>) ex_outside =
     (Inr (), True, ex_desktop,
      ex_outside\<lparr>bblog := [CapturedKeyPress (Keyboard ''a'' ''09:59:58''),
                            CapturedMouseEvent (Mouse ''click'' 3 4 ''09:59:59'')]\<rparr>)"
  by (simp add: ex_events_def ex_desktop_def ex_outside_def on_key_press_def on_mouse_click_def
      Let_def)

lemma take_fullscreen_screenshot_single:
  "take_fullscreen_screenshot cfg w [s] d out = capture_cycle cfg w (cvtColor_BGRA2BGR s) d out"
  by (simp add: take_fullscreen_screenshot_def)

subsection \<open>Failure of the store write\<close>

text \<open>
  C1, as stated, fails. With baseline \<open>ex_base\<close>, new frame \<open>ex_new\<close> and a store whose
  write fails, the capture cycle raises the error of the store: the caller receives no
  frame, nothing is logged, and the baseline is still \<open>ex_base\<close>.
\<close>

theorem store_failure_counterexample:
  "capture_cycle ex_config (ex_world\<lparr>sqlite_ok := False\<rparr>) ex_new ex_desktop ex_outside =
     (Inl SqliteError,
      \<lparr>base_image = Some ex_base, user_input_queue = [], monitoring_user_input = True\<rparr>,
      \<lparr>snapshots = [], ocr_calls = [ex_new], files = [], bblog = []\<rparr>) \<and>
   ex_base \<noteq> ex_new"
  by (simp add: capture_cycle_def save_screenshot_diff_def save_user_input_eq ex_region
      ex_frames_differ ex_config_def ex_world_def ex_desktop_def ex_outside_def)

text \<open>
  C1, amended. A failure of the store write in a capture cycle is not caught: when the
  cycle reaches the write (persistence enabled, a non-degenerate region, OCR results
  that map to annotations) and the store fails, the call raises the error of the store
  in place of returning the frame, logs nothing, writes no row, and leaves the baseline
  at the frame it held before; the queue has been drained by then.
\<close>

theorem store_failure_propagates:
  assumes "snapshots_database_enabled cfg"
    and "nondegenerate (cycle_region d img)"
    and "ocr_extract_text w img = Inr rs" and "ocr_text_json rs = Inr anns"
    and "\<not> sqlite_ok w"
  shows "case capture_cycle cfg w img d out of
           (r, d', out') \<Rightarrow>
             r = Inl SqliteError \<and> base_image d' = base_image d \<and> base_image d \<noteq> None \<and>
             snapshots out' = snapshots out \<and> bblog out' = bblog out \<and>
             user_input_queue d' = []"
proof (cases "base_image d")
  case None
  with assms(2) show ?thesis by (simp add: cycle_region_def diff_region_same)
next
  case (Some base)
  with assms(2) obtain x y wd h where "diff_region base img = Inr (x, y, wd, h)" "0 < wd" "0 < h"
    by (cases "diff_region base img") (auto simp: cycle_region_def)
  with Some assms show ?thesis
    by (simp add: capture_cycle_def save_screenshot_diff_def save_user_input_eq Let_def)
qed

theorem store_failure_propagates_witness:
  "snapshots_database_enabled ex_config \<and> nondegenerate (cycle_region ex_desktop ex_new) \<and>
   \<not> sqlite_ok (ex_world\<lparr>sqlite_ok := False\<rparr>) \<and>
   fst (capture_cycle ex_config (ex_world\<lparr>sqlite_ok := False\<rparr>) ex_new ex_desktop ex_outside) =
     Inl SqliteError \<and>
   base_image (fst (snd (capture_cycle ex_config (ex_world\<lparr>sqlite_ok := False\<rparr>) ex_new
     ex_desktop ex_outside))) = Some ex_base"
proof -
  have h1: "snapshots_database_enabled ex_config" by (simp add: ex_config_def)
  have h2: "nondegenerate (cycle_region ex_desktop ex_new)" by (simp add: ex_cycle_region)
  have h3: "ocr_extract_text (ex_world\<lparr>sqlite_ok := False\<rparr>) ex_new = Inr [(''File'', [1, 2, 4, 6])]"
    by (simp add: ex_world_def)
  have h5: "\<not> sqlite_ok (ex_world\<lparr>sqlite_ok := False\<rparr>)" by simp
  have b: "base_image ex_desktop = Some ex_base" by (simp add: ex_desktop_def)
  from store_failure_propagates [OF h1 h2 h3 ex_ocr_json h5, of ex_outside] b h1 h2 h5
  show ?thesis by (auto split: prod.splits)
qed

subsection \<open>The drain and the events of a record\<close>

text \<open>
  C2, as stated, fails. A cycle whose new frame equals the baseline finds the degenerate
  region (0, 0, 0, 0); it still drains the two queued events, and writes no row: the
  drain is not tied to a non-degenerate region, and the two events are attached to no
  record.
\<close>

theorem drain_degenerate_counterexample:
  "diff_region ex_base ex_base = Inr (0, 0, 0, 0) \<and>
   capture_cycle ex_config ex_world ex_base ex_desktop ex_outside =
     (Inr ex_base,
      \<lparr>base_image = Some ex_base, user_input_queue = [], monitoring_user_input = True\<rparr>,
      \<lparr>snapshots = [], ocr_calls = [ex_base], files = [], bblog = []\<rparr>) \<and>
   user_input_queue ex_desktop = [Keyboard ''a'' ''09:59:58'', Mouse ''click'' 3 4 ''09:59:59'']"
  by (simp add: capture_cycle_def save_screenshot_diff_def save_user_input_eq diff_region_same
      ex_config_def ex_world_def ex_desktop_def ex_outside_def)

text \<open>
  C2, amended. The drain runs in every capture cycle with persistence enabled whose
  diff and OCR steps succeed, whether the region is degenerate or not, and leaves the
  queue empty. When the callbacks have recorded the events \<open>evs\<close> without a fault and
  one such cycle finds a non-degenerate region and its store write succeeds, the cycle
  appends exactly one row, whose \<open>user_input\<close> holds what the queue held before
  followed by those events in the order of their production. When the region is
  degenerate no row is written.
\<close>

theorem drain_every_cycle:
  assumes "snapshots_database_enabled cfg"
    and "list_all faultless evs"
    and "listeners_join evs True d0 out0 = (r0, running, d, out)"
    and "cycle_region d img = Inr reg"
    and "ocr_extract_text w img = Inr rs" and "ocr_text_json rs = Inr anns"
  shows "case capture_cycle cfg w img d out of
           (r, d', out') \<Rightarrow>
             user_input_queue d' = [] \<and>
             (nondegenerate (Inr reg) \<and> sqlite_ok w \<longrightarrow>
                r = Inr img \<and>
                (\<exists>row. snapshots out' = snapshots out @ [row] \<and>
                       snap_user_input row = user_input_queue d0 @ map recorded evs)) \<and>
             (\<not> nondegenerate (Inr reg) \<longrightarrow> r = Inr img \<and> snapshots out' = snapshots out)"
proof -
  from listeners_join_faultless [OF assms(2), of d0 out0] assms(3)
  have q: "user_input_queue d = user_input_queue d0 @ map recorded evs" by simp
  obtain x y wd h where reg: "reg = (x, y, wd, h)" by (cases reg)
  show ?thesis
    using assms(1,4-6) reg q
    by (cases "base_image d")
       (auto simp: capture_cycle_def save_screenshot_diff_def save_user_input_eq Let_def
          cycle_region_def diff_region_same)
qed

theorem drain_every_cycle_witness:
  "snapshots_database_enabled ex_config \<and> list_all faultless ex_events \<and>
   cycle_region ex_desktop ex_new = Inr (1, 1, 2, 2) \<and> sqlite_ok ex_world \<and>
   (\<exists>d' out' row.
      capture_cycle ex_config ex_world ex_new ex_desktop
        (snd (snd (snd (listeners_join ex_events True
           (ex_desktop\<lparr>user_input_queue := []\<rparr>) ex_outside)))) =
        (Inr ex_new, d', out') \<and>
      user_input_queue d' = [] \<and> snapshots out' = [row] \<and>
      snap_user_input row = [Keyboard ''a'' ''09:59:58'', Mouse ''click'' 3 4 ''09:59:59''])"
proof -
  have h1: "snapshots_database_enabled ex_config" by (simp add: ex_config_def)
  have h2: "list_all faultless ex_events" by (simp add: ex_events_def)
  have h5: "sqlite_ok ex_world" by (simp add: ex_world_def)
  have r: "map recorded ex_events = [Keyboard ''a'' ''09:59:58'', Mouse ''click'' 3 4 ''09:59:59'']"
    by (simp add: ex_events_def)
  from drain_every_cycle [OF h1 h2 ex_listeners ex_cycle_region ex_ocr ex_ocr_json] h5 r
  have "\<exists>d' out' row.
      capture_cycle ex_config ex_world ex_new ex_desktop
        (ex_outside\<lparr>bblog := [CapturedKeyPress (Keyboard ''a'' ''09:59:58''),
                            CapturedMouseEvent (Mouse ''click'' 3 4 ''09:59:59'')]\<rparr>) =
        (Inr ex_new, d', out') \<and>
      user_input_queue d' = [] \<and> snapshots out' = [row] \<and>
      snap_user_input row = [Keyboard ''a'' ''09:59:58'', Mouse ''click'' 3 4 ''09:59:59'']"
    by (auto simp: ex_outside_def split: prod.splits)
  with h1 h2 h5 ex_cycle_region show ?thesis by (simp add: ex_listeners)
qed

subsection \<open>When a record is written\<close>



subsection \<open>Text annotations of a record\<close>

text \<open>
  C8. In a capture cycle that writes a row, the OCR service is called exactly once, on
  the full new frame, and the \<open>text\<close> of the row has one annotation for each OCR
  result, in order: a result with text \<open>s\<close> and corner coordinates (l, t, r, b) becomes
  the annotation with that text and the rectangle x = l, y = t, width = r - l,
  height = b - t.
\<close>

theorem ocr_once_on_full_frame:
  assumes "capture_cycle cfg w img d out = (r, d', out')"
    and "snapshots out' = snapshots out @ [row]"
  shows "ocr_calls out' = ocr_calls out @ [img] \<and>
         (\<exists>rs. ocr_extract_text w img = Inr rs \<and> length (snap_text row) = length rs \<and>
            (\<forall>i < length rs. \<exists>l t r b rest.
               snd (rs ! i) = l # t # r # b # rest \<and>
               snap_text row ! i =
                 \<lparr>ann_text = fst (rs ! i),
                  ann_rect = \<lparr>rect_x = l, rect_y = t, rect_width = r - l, rect_height = b - t\<rparr>\<rparr>))"
proof -
  from assms obtain rs anns where
    "ocr_extract_text w img = Inr rs" "ocr_text_json rs = Inr anns" "snap_text row = anns"
    "ocr_calls out' = ocr_calls out @ [img]"
    by (cases "base_image d")
       (auto simp: capture_cycle_def save_screenshot_diff_def save_user_input_eq Let_def
          diff_region_same split: sum.splits prod.splits if_splits)
  with ocr_text_json_map [of rs anns] show ?thesis by simp
qed

theorem ocr_once_on_full_frame_witness:
  "\<exists>d' out' row.
     capture_cycle ex_config ex_world ex_new ex_desktop ex_outside = (Inr ex_new, d', out') \<and>
     snapshots out' = snapshots ex_outside @ [row] \<and>
     ocr_calls out' = ocr_calls ex_outside @ [ex_new] \<and>
     snap_text row = [\<lparr>ann_text = ''File'',
        ann_rect = \<lparr>rect_x = 1, rect_y = 2, rect_width = 3, rect_height = 4\<rparr>\<rparr>]"
proof -
  let ?row = "\<lparr>snap_timestamp = ''2024-05-01T10:00:00'', snap_type = ''desktop_screenshot'',
      snap_data = crop ex_new 1 1 2 2, snap_position = (1, 1, 2, 2),
      snap_text = [\<lparr>ann_text = ''File'',
        ann_rect = \<lparr>rect_x = 1, rect_y = 2, rect_width = 3, rect_height = 4\<rparr>\<rparr>],
      snap_user_input = [Keyboard ''a'' ''09:59:58'', Mouse ''click'' 3 4 ''09:59:59'']\<rparr>"
  let ?d = "\<lparr>base_image = Some ex_new, user_input_queue = [], monitoring_user_input = True\<rparr>"
  let ?out = "\<lparr>snapshots = [?row], ocr_calls = [ex_new], files = [], bblog = []\<rparr>"
  have c: "capture_cycle ex_config ex_world ex_new ex_desktop ex_outside = (Inr ex_new, ?d, ?out)"
    by (simp add: capture_cycle_def save_screenshot_diff_def save_user_input_eq ex_region
        ex_config_def ex_world_def ex_desktop_def ex_outside_def)
  have s: "snapshots ?out = snapshots ex_outside @ [?row]" by (simp add: ex_outside_def)
  from ocr_once_on_full_frame [OF c s]
  have "ocr_calls ?out = ocr_calls ex_outside @ [ex_new]" by blast
  with c s show ?thesis by (intro exI [of _ ?d] exI [of _ ?out] exI [of _ ?row]) simp
qed

subsection \<open>Events drained without a record\<close>



subsection \<open>The singleton\<close>

text \<open>
  C5, as stated, fails. In a process where no instance exists yet, the direct
  construction \<^verbatim>\<open>Desktop()\<close> succeeds: it returns a new object and leaves
  \<^verbatim>\<open>Desktop._instance\<close> unset.
\<close>

theorem direct_construction_counterexample:
  "Desktop_new True (ex_runtime ex_config) =
     (Inr 0,
      \<lparr>bbconfig = ex_config, desktop_instance = None,
       objects = [\<lparr>base_image = None, user_input_queue = [], monitoring_user_input = True\<rparr>],
       connections = [''snapshots.db'', ''snapshots.db''], schemas = [''snapshots.db''],
       collector_threads = 1\<rparr>)"
  by (simp add: Desktop_new_def Desktop_init_def init_database_def ex_runtime_def ex_config_def)

text \<open>
  C5, amended. A call of the accessor that returns an instance stores it, constructs at
  most one object, and every later call returns the same instance and changes nothing
  (it constructs no object). The accessor returns whenever the store can be opened.
  Direct construction fails with the usage error once the singleton instance exists.
\<close>

theorem singleton_accessor:
  "(get_desktop_singleton ok rt = (Inr r, rt') \<longrightarrow>
      desktop_instance rt' = Some r \<and> length (objects rt') \<le> Suc (length (objects rt)) \<and>
      (\<forall>ok'. get_desktop_singleton ok' rt' = (Inr r, rt'))) \<and>
   (ok \<longrightarrow> (\<exists>r rt'. get_desktop_singleton ok rt = (Inr r, rt'))) \<and>
   (desktop_instance rt \<noteq> None \<longrightarrow> Desktop_new ok rt = (Inl RuntimeError, rt))"
  by (auto simp: get_desktop_singleton_def Desktop_new_def Desktop_init_def init_database_def
      Let_def split: option.splits sum.splits prod.splits if_splits)

theorem singleton_accessor_witness:
  "\<exists>rt'. get_desktop_singleton True (ex_runtime ex_config) = (Inr 0, rt') \<and>
     desktop_instance rt' = Some 0 \<and>
     get_desktop_singleton True rt' = (Inr 0, rt') \<and>
     Desktop_new True rt' = (Inl RuntimeError, rt')"
proof -
  obtain rt' where g: "get_desktop_singleton True (ex_runtime ex_config) = (Inr 0, rt')"
    by (simp add: get_desktop_singleton_def Desktop_new_def Desktop_init_def init_database_def
        ex_runtime_def ex_config_def)
  from singleton_accessor [of True "ex_runtime ex_config" 0 rt'] g
  have i: "desktop_instance rt' = Some 0" and a: "get_desktop_singleton True rt' = (Inr 0, rt')"
    by blast+
  from singleton_accessor [of True rt' 0 rt'] i
  have "Desktop_new True rt' = (Inl RuntimeError, rt')" by simp
  with g i a show ?thesis by blast
qed

subsection \<open>Construction\<close>

text \<open>
  C6: the code at an input where it departs from the claim. With persistence and input
  monitoring both disabled in the configuration, \<^verbatim>\<open>__init__\<close> creates no schema and
  sets the baseline to \<open>None\<close>, but it opens a connection to the store (line 49 is
  outside the test of \<^verbatim>\<open>init_database\<close>), and it starts the collector thread, since
  line 56 overrides the option to \<open>True\<close> before line 57 reads it.
\<close>

theorem construction_with_options_disabled:
  "Desktop_init True (ex_runtime ex_config_off) =
     (Inr \<lparr>base_image = None, user_input_queue = [], monitoring_user_input = True\<rparr>,
      \<lparr>bbconfig = ex_config_off\<lparr>opt_monitor_user_input := True\<rparr>, desktop_instance = None,
       objects = [], connections = [''snapshots.db''], schemas = [], collector_threads = 1\<rparr>) \<and>
   \<not> snapshots_database_enabled ex_config_off \<and> \<not> opt_monitor_user_input ex_config_off"
  by (simp add: Desktop_init_def init_database_def ex_runtime_def ex_config_off_def ex_config_def)

subsection \<open>The listener callbacks\<close>

text \<open>
  C7: the code at an input where it departs from the claim. An exception inside the
  keyboard callback is logged and the callback returns, so the next key press is
  recorded; a failure to start the listeners is logged and the thread ends. An
  exception inside the mouse callback leaves the callback: nothing is logged, the mouse
  listener stops, and the mouse event that follows is never recorded.
\<close>

theorem mouse_callback_failure:
  "on_key_press (Some HandlerError) ''a'' ''10:00:01'' d out =
     (Inr (), d, out\<lparr>bblog := bblog out @ [KeyPressHandlerError HandlerError]\<rparr>) \<and>
   on_mouse_click (Some HandlerError) 3 4 ''left'' True ''10:00:01'' d out =
     (Inl HandlerError, d, out) \<and>
   monitor_user_input None
     [MouseClick (Some HandlerError) 3 4 ''left'' True ''10:00:01'',
      MouseClick None 3 4 ''left'' False ''10:00:02''] d out = (d, out) \<and>
   monitor_user_input None
     [KeyPress (Some HandlerError) ''a'' ''10:00:01'',
      KeyPress None ''b'' ''10:00:02''] d out =
     (d\<lparr>user_input_queue := user_input_queue d @ [Keyboard ''b'' ''10:00:02'']\<rparr>,
      out\<lparr>bblog := bblog out @ [KeyPressHandlerError HandlerError,
                                 CapturedKeyPress (Keyboard ''b'' ''10:00:02'')]\<rparr>) \<and>
   monitor_user_input (Some ListenerError) evs d out =
     (d, out\<lparr>bblog := bblog out @ [StartingListenersError ListenerError]\<rparr>)"
  by (simp add: on_key_press_def on_mouse_click_def monitor_user_input_def Let_def)

end
